theory Spec2Isabelle
  imports Main "HOL-Library.Multiset"
begin

section \<open>Data model\<close>

text \<open>
  The server is \<^verbatim>\<open>src/index.js\<close>; \<^verbatim>\<open>src/unnamed/part_000\<close> is a second copy with the
  same route handlers (it differs in how the database connection is configured).
  The rows of the three tables the handlers read and write are records.
  Two records cannot share a field name, so the columns are prefixed where they
  collide: \<open>uid\<close> and \<open>eid\<close> are the \<^verbatim>\<open>id\<close> columns of \<^verbatim>\<open>users\<close> and
  \<^verbatim>\<open>events\<close>, \<open>user_id\<close> is the nullable owner column of \<^verbatim>\<open>events\<close>.
  A date is the day number of the stored value; only its order matters
  (\<^verbatim>\<open>ORDER BY date ASC\<close>).
\<close>

type_synonym date = int

type_synonym sid = nat

record user =
  uid :: int
  username :: string
  password :: string
  role :: string

record event =
  eid :: int
  title :: string
  date :: date
  location :: string
  user_id :: "int option"

record booking =
  bid :: int
  booking_user_id :: int
  booking_event_id :: int

text \<open>
  The statements handed to \<^verbatim>\<open>db.query\<close>, one constructor for each SQL text of the
  source, carrying the bind parameters in the order of the source.
\<close>

datatype sql =
    SelectEventsAll
  | SelectEventsByUser int
  | SelectUserByUsername string
  | InsertUser string string string
  | InsertEventOwned string date string int
  | InsertEvent string date string
  | DeleteEvent int
  | InsertBooking int int

text \<open>
  What an \<^verbatim>\<open>await\<close> can raise: the database rejecting a statement, or bcrypt
  rejecting its arguments (\<^verbatim>\<open>hash\<close> and \<^verbatim>\<open>compare\<close> raise on data that is absent or
  not a string).
\<close>

datatype failure = QueryRejected sql | BcryptRejected

text \<open>
  What a handler hands to \<^verbatim>\<open>res\<close>: \<^verbatim>\<open>res.redirect(path)\<close>, \<^verbatim>\<open>res.send(text)\<close> or
  \<^verbatim>\<open>res.render(view, data)\<close>, with the data payloads the source builds.
\<close>

datatype payload =
    NoData
  | UserOnly "user option"
  | UserEvents "user option" "event list"
  | UserEventId "user option" int

datatype response =
    Redirect string
  | Send string
  | Render string payload

text \<open>
  No handler calls \<^verbatim>\<open>res.status\<close>: \<^verbatim>\<open>res.send\<close> and \<^verbatim>\<open>res.render\<close> answer with
  the response object's initial status 200, \<^verbatim>\<open>res.redirect(path)\<close> with 302.
\<close>

fun status_code :: "response \<Rightarrow> nat" where
  "status_code (Redirect p) = 302"
| "status_code (Send t) = 200"
| "status_code (Render v d) = 200"

text \<open>The observable steps of one request, in the order they happen.\<close>

datatype effect =
    Query sql
  | ConsoleError failure
  | SessionDestroyed sid
  | Respond response

text \<open>
  The state the handlers share: the three tables with their id sequences, the
  session store (session identifier to the user snapshot stored by login; no entry
  means \<^verbatim>\<open>req.session.user\<close> is undefined), and the collaborators outside the
  repository: which statements the database rejects, and bcrypt's \<^verbatim>\<open>hash\<close> and
  \<^verbatim>\<open>compare\<close>.
\<close>

record world =
  users :: "user list"
  events :: "event list"
  bookings :: "booking list"
  users_id_seq :: int
  events_id_seq :: int
  bookings_id_seq :: int
  sessions :: "sid \<rightharpoonup> user"
  rejects :: "sql \<Rightarrow> bool"
  bcrypt_hash :: "string \<Rightarrow> nat \<Rightarrow> string"
  bcrypt_compare :: "string \<Rightarrow> string \<Rightarrow> bool"

text \<open>
  The result of running a handler: the response, or the failure that left the
  async handler uncaught; the state afterwards; the effects in order.
\<close>

record reply =
  outcome :: "failure + response"
  after :: world
  effects :: "effect list"

text \<open>
  The form fields a handler destructures from \<^verbatim>\<open>req.body\<close>. The username and the
  event fields are the submitted strings (the date and the \<^verbatim>\<open>:id\<close> path parameters
  as the values the database reads from them). The role is optional, \<open>None\<close> being
  a body without that field, since the handler tests it. The password is \<open>None\<close>
  when the body has no password field or one that is not a string (the extended
  parser turns \<^verbatim>\<open>password[]=x\<close> into an array): bcrypt raises on both.
\<close>

record signup_body =
  signup_username :: string
  signup_password :: "string option"
  signup_role :: "string option"

record login_body =
  login_username :: string
  login_password :: "string option"

record event_body =
  event_title :: string
  event_date :: date
  event_location :: string

section \<open>Persistence gateway\<close>

text \<open>
  \<^verbatim>\<open>await db.query(text, params)\<close>: a rejected statement raises, an accepted one
  returns its rows (a read) or the updated tables (a write). \<^verbatim>\<open>ORDER BY date ASC\<close>
  leaves the order of rows with equal dates to the database; the stable sort here
  is one such order, and the statements below use only that the rows are sorted
  and which rows they are.
\<close>

definition select_events_all :: "world \<Rightarrow> failure + event list" where
  "select_events_all w =
     (if rejects w SelectEventsAll then Inl (QueryRejected SelectEventsAll)
      else Inr (sort_key date (events w)))"

definition select_events_by_user :: "int \<Rightarrow> world \<Rightarrow> failure + event list" where
  "select_events_by_user i w =
     (if rejects w (SelectEventsByUser i) then Inl (QueryRejected (SelectEventsByUser i))
      else Inr (sort_key date (filter (\<lambda>e. user_id e = Some i) (events w))))"

definition select_user_by_username :: "string \<Rightarrow> world \<Rightarrow> failure + user list" where
  "select_user_by_username n w =
     (if rejects w (SelectUserByUsername n) then Inl (QueryRejected (SelectUserByUsername n))
      else Inr (filter (\<lambda>u. username u = n) (users w)))"

definition insert_user :: "string \<Rightarrow> string \<Rightarrow> string \<Rightarrow> world \<Rightarrow> failure + world" where
  "insert_user n h r w =
     (if rejects w (InsertUser n h r) then Inl (QueryRejected (InsertUser n h r))
      else Inr (w\<lparr>users := users w @
                     [\<lparr>uid = users_id_seq w, username = n, password = h, role = r\<rparr>],
                   users_id_seq := users_id_seq w + 1\<rparr>))"

definition insert_event_owned ::
  "string \<Rightarrow> date \<Rightarrow> string \<Rightarrow> int \<Rightarrow> world \<Rightarrow> failure + world" where
  "insert_event_owned t d l i w =
     (if rejects w (InsertEventOwned t d l i) then Inl (QueryRejected (InsertEventOwned t d l i))
      else Inr (w\<lparr>events := events w @
                     [\<lparr>eid = events_id_seq w, title = t, date = d, location = l,
                       user_id = Some i\<rparr>],
                   events_id_seq := events_id_seq w + 1\<rparr>))"

definition insert_event :: "string \<Rightarrow> date \<Rightarrow> string \<Rightarrow> world \<Rightarrow> failure + world" where
  "insert_event t d l w =
     (if rejects w (InsertEvent t d l) then Inl (QueryRejected (InsertEvent t d l))
      else Inr (w\<lparr>events := events w @
                     [\<lparr>eid = events_id_seq w, title = t, date = d, location = l,
                       user_id = None\<rparr>],
                   events_id_seq := events_id_seq w + 1\<rparr>))"

definition delete_event :: "int \<Rightarrow> world \<Rightarrow> failure + world" where
  "delete_event i w =
     (if rejects w (DeleteEvent i) then Inl (QueryRejected (DeleteEvent i))
      else Inr (w\<lparr>events := filter (\<lambda>e. eid e \<noteq> i) (events w)\<rparr>))"

definition insert_booking :: "int \<Rightarrow> int \<Rightarrow> world \<Rightarrow> failure + world" where
  "insert_booking u e w =
     (if rejects w (InsertBooking u e) then Inl (QueryRejected (InsertBooking u e))
      else Inr (w\<lparr>bookings := bookings w @
                     [\<lparr>bid = bookings_id_seq w, booking_user_id = u, booking_event_id = e\<rparr>],
                   bookings_id_seq := bookings_id_seq w + 1\<rparr>))"

section \<open>Responses and access control\<close>

text \<open>
  \<open>respond\<close> is a handler that answers; \<open>propagate\<close> is an \<^verbatim>\<open>await\<close> whose
  rejection nothing catches, so it leaves the handler without an answer.
\<close>

definition respond :: "response \<Rightarrow> world \<Rightarrow> effect list \<Rightarrow> reply" where
  "respond r w es = \<lparr>outcome = Inr r, after = w, effects = es @ [Respond r]\<rparr>"

definition propagate :: "failure \<Rightarrow> world \<Rightarrow> effect list \<Rightarrow> reply" where
  "propagate e w es = \<lparr>outcome = Inl e, after = w, effects = es\<rparr>"

text \<open>
  \<^verbatim>\<open>requireLogin(req, res, next)\<close>: without a session user the request is answered
  with a redirect to the login page and \<^verbatim>\<open>next\<close> never runs.
\<close>

definition requireLogin :: "sid \<Rightarrow> world \<Rightarrow> (user \<Rightarrow> reply) \<Rightarrow> reply" where
  "requireLogin s w next =
     (case sessions w s of
        None \<Rightarrow> respond (Redirect ''/login'') w []
      | Some u \<Rightarrow> next u)"

section \<open>Credential service\<close>

text \<open>
  \<^verbatim>\<open>await bcrypt.hash(password, 10)\<close> and \<^verbatim>\<open>await bcrypt.compare(password, hash)\<close>:
  both raise when the password is absent or not a string; on a string they return
  what the library computes.
\<close>

definition await_hash :: "string option \<Rightarrow> nat \<Rightarrow> world \<Rightarrow> failure + string" where
  "await_hash p n w =
     (case p of None \<Rightarrow> Inl BcryptRejected | Some x \<Rightarrow> Inr (bcrypt_hash w x n))"

definition await_compare :: "string option \<Rightarrow> string \<Rightarrow> world \<Rightarrow> failure + bool" where
  "await_compare p h w =
     (case p of None \<Rightarrow> Inl BcryptRejected | Some x \<Rightarrow> Inr (bcrypt_compare w x h))"

text \<open>
  Modelled from the spec: bcrypt itself is a library outside the repository. The
  specification's Credential Service (its contract, and the signup property among
  the testable properties) says that the hash of a plaintext is not the plaintext
  and that verify accepts the plaintext against it; this is that contract at one
  plaintext, for the cost factor the handler passes.
\<close>

definition credential_contract :: "world \<Rightarrow> string \<Rightarrow> bool" where
  "credential_contract w p =
     (bcrypt_hash w p 10 \<noteq> p \<and> bcrypt_compare w p (bcrypt_hash w p 10))"

section \<open>Route handlers\<close>

text \<open>\<^verbatim>\<open>app.get("/admin", requireLogin, ...)\<close>\<close>

definition get_admin :: "sid \<Rightarrow> world \<Rightarrow> reply" where
  "get_admin s w =
     requireLogin s w (\<lambda>u.
       if role u \<noteq> ''admin'' then respond (Send ''Access denied'') w []
       else (case select_events_all w of
               Inl err \<Rightarrow> propagate err w [Query SelectEventsAll]
             | Inr rows \<Rightarrow>
                 respond (Render ''admin'' (UserEvents (Some u) rows)) w
                   [Query SelectEventsAll]))"

text \<open>\<^verbatim>\<open>app.get("/", ...)\<close>: no login is required; the list starts empty.\<close>

definition get_home :: "sid \<Rightarrow> world \<Rightarrow> reply" where
  "get_home s w =
     (case sessions w s of
        None \<Rightarrow> respond (Render ''index'' (UserEvents None [])) w []
      | Some u \<Rightarrow>
          if role u = ''admin'' then
            (case select_events_all w of
               Inl err \<Rightarrow> propagate err w [Query SelectEventsAll]
             | Inr rows \<Rightarrow>
                 respond (Render ''index'' (UserEvents (Some u) rows)) w
                   [Query SelectEventsAll])
          else
            (case select_events_by_user (uid u) w of
               Inl err \<Rightarrow> propagate err w [Query (SelectEventsByUser (uid u))]
             | Inr rows \<Rightarrow>
                 respond (Render ''index'' (UserEvents (Some u) rows)) w
                   [Query (SelectEventsByUser (uid u))]))"

text \<open>\<^verbatim>\<open>app.get("/signup", ...)\<close> and \<^verbatim>\<open>app.get("/login", ...)\<close> render their forms.\<close>

definition get_signup :: "sid \<Rightarrow> world \<Rightarrow> reply" where
  "get_signup s w = respond (Render ''signup'' NoData) w []"

definition get_login :: "sid \<Rightarrow> world \<Rightarrow> reply" where
  "get_login s w = respond (Render ''login'' NoData) w []"

text \<open>
  The texts the handlers send. The first begins with the warning sign U+26A0 U+FE0F,
  written here as its six UTF-8 bytes.
\<close>

definition taken_msg :: string where
  "taken_msg =
     [CHR 0xE2, CHR 0x9A, CHR 0xA0, CHR 0xEF, CHR 0xB8, CHR 0x8F] @
     '' Username already taken. <a href='/signup'>Try another</a>''"

definition error_msg :: string where
  "error_msg = ''Error occurred. Please try again.''"

definition invalid_msg :: string where
  "invalid_msg = ''Invalid credentials. <a href='/login'>Try again</a>''"

text \<open>\<^verbatim>\<open>role || "user"\<close>: an absent field and the empty string are both falsy.\<close>

definition role_or_user :: "string option \<Rightarrow> string" where
  "role_or_user r = (case r of None \<Rightarrow> ''user'' | Some x \<Rightarrow> if x = [] then ''user'' else x)"

text \<open>
  \<^verbatim>\<open>app.post("/signup", ...)\<close>: the whole body runs inside \<^verbatim>\<open>try\<close>; the \<^verbatim>\<open>catch\<close>
  logs the error and sends the generic text, whether a statement or the hash raised.
\<close>

definition post_signup :: "sid \<Rightarrow> signup_body \<Rightarrow> world \<Rightarrow> reply" where
  "post_signup s b w =
     (let q1 = SelectUserByUsername (signup_username b) in
      case select_user_by_username (signup_username b) w of
        Inl err \<Rightarrow> respond (Send error_msg) w [Query q1, ConsoleError err]
      | Inr existing \<Rightarrow>
          if length existing > 0 then respond (Send taken_msg) w [Query q1]
          else
            (case await_hash (signup_password b) 10 w of
               Inl err \<Rightarrow> respond (Send error_msg) w [Query q1, ConsoleError err]
             | Inr hashed \<Rightarrow>
                 (let q2 = InsertUser (signup_username b) hashed (role_or_user (signup_role b))
                  in case insert_user (signup_username b) hashed
                            (role_or_user (signup_role b)) w of
                       Inl err \<Rightarrow>
                         respond (Send error_msg) w [Query q1, Query q2, ConsoleError err]
                     | Inr w' \<Rightarrow> respond (Redirect ''/login'') w' [Query q1, Query q2])))"

text \<open>
  \<^verbatim>\<open>app.post("/login", ...)\<close>: \<^verbatim>\<open>result.rows[0]\<close> is compared; on a match the row
  becomes \<^verbatim>\<open>req.session.user\<close>. Nothing catches what the lookup or the compare
  raises.
\<close>

definition post_login :: "sid \<Rightarrow> login_body \<Rightarrow> world \<Rightarrow> reply" where
  "post_login s b w =
     (let q = SelectUserByUsername (login_username b) in
      case select_user_by_username (login_username b) w of
        Inl err \<Rightarrow> propagate err w [Query q]
      | Inr rows \<Rightarrow>
          (case rows of
             [] \<Rightarrow> respond (Send invalid_msg) w [Query q]
           | u # rest \<Rightarrow>
               (case await_compare (login_password b) (password u) w of
                  Inl err \<Rightarrow> propagate err w [Query q]
                | Inr match \<Rightarrow>
                    if match
                    then respond (Redirect ''/'')
                           (w\<lparr>sessions := (sessions w)(s \<mapsto> u)\<rparr>) [Query q]
                    else respond (Send invalid_msg) w [Query q])))"

text \<open>
  \<^verbatim>\<open>req.session.destroy(callback)\<close> removes the session from the store and then
  calls back; \<^verbatim>\<open>app.get("/logout", ...)\<close> redirects inside that callback.
\<close>

definition session_destroy :: "sid \<Rightarrow> world \<Rightarrow> (world \<Rightarrow> effect list \<Rightarrow> reply) \<Rightarrow> reply" where
  "session_destroy s w callback =
     callback (w\<lparr>sessions := (sessions w)(s := None)\<rparr>) [SessionDestroyed s]"

definition get_logout :: "sid \<Rightarrow> world \<Rightarrow> reply" where
  "get_logout s w = session_destroy s w (\<lambda>w' es. respond (Redirect ''/'') w' es)"

text \<open>\<^verbatim>\<open>app.get("/create-event", requireLogin, ...)\<close>\<close>

definition get_create_event :: "sid \<Rightarrow> world \<Rightarrow> reply" where
  "get_create_event s w =
     requireLogin s w (\<lambda>u. respond (Render ''create-event'' (UserOnly (Some u))) w [])"

text \<open>\<^verbatim>\<open>app.post("/create-event", requireLogin, ...)\<close>\<close>

definition post_create_event :: "sid \<Rightarrow> event_body \<Rightarrow> world \<Rightarrow> reply" where
  "post_create_event s b w =
     requireLogin s w (\<lambda>u.
       let q = InsertEventOwned (event_title b) (event_date b) (event_location b) (uid u) in
       case insert_event_owned (event_title b) (event_date b) (event_location b) (uid u) w of
         Inl err \<Rightarrow> propagate err w [Query q]
       | Inr w' \<Rightarrow> respond (Redirect ''/'') w' [Query q])"

text \<open>\<^verbatim>\<open>app.post("/book/:id", requireLogin, ...)\<close>\<close>

definition post_book :: "sid \<Rightarrow> int \<Rightarrow> world \<Rightarrow> reply" where
  "post_book s eventId w =
     requireLogin s w (\<lambda>u.
       let q = InsertBooking (uid u) eventId in
       case insert_booking (uid u) eventId w of
         Inl err \<Rightarrow> propagate err w [Query q]
       | Inr w' \<Rightarrow>
           respond (Render ''confirmation'' (UserEventId (Some u) eventId)) w' [Query q])"

text \<open>\<^verbatim>\<open>app.post("/admin/add", requireLogin, ...)\<close>: the insert names no owner.\<close>

definition post_admin_add :: "sid \<Rightarrow> event_body \<Rightarrow> world \<Rightarrow> reply" where
  "post_admin_add s b w =
     requireLogin s w (\<lambda>u.
       if role u \<noteq> ''admin'' then respond (Send ''Access denied'') w []
       else
         (let q = InsertEvent (event_title b) (event_date b) (event_location b) in
          case insert_event (event_title b) (event_date b) (event_location b) w of
            Inl err \<Rightarrow> propagate err w [Query q]
          | Inr w' \<Rightarrow> respond (Redirect ''/admin'') w' [Query q]))"

text \<open>\<^verbatim>\<open>app.post("/admin/delete/:id", requireLogin, ...)\<close>\<close>

definition post_admin_delete :: "sid \<Rightarrow> int \<Rightarrow> world \<Rightarrow> reply" where
  "post_admin_delete s i w =
     requireLogin s w (\<lambda>u.
       if role u \<noteq> ''admin'' then respond (Send ''Access denied'') w []
       else
         (case delete_event i w of
            Inl err \<Rightarrow> propagate err w [Query (DeleteEvent i)]
          | Inr w' \<Rightarrow> respond (Redirect ''/admin'') w' [Query (DeleteEvent i)]))"

text \<open>The routing table: every method and path the source registers.\<close>

datatype request =
    GetHome
  | GetSignup
  | PostSignup signup_body
  | GetLogin
  | PostLogin login_body
  | GetLogout
  | GetCreateEvent
  | PostCreateEvent event_body
  | PostBook int
  | GetAdmin
  | PostAdminAdd event_body
  | PostAdminDelete int

fun route :: "request \<Rightarrow> sid \<Rightarrow> world \<Rightarrow> reply" where
  "route GetHome s w = get_home s w"
| "route GetSignup s w = get_signup s w"
| "route (PostSignup b) s w = post_signup s b w"
| "route GetLogin s w = get_login s w"
| "route (PostLogin b) s w = post_login s b w"
| "route GetLogout s w = get_logout s w"
| "route GetCreateEvent s w = get_create_event s w"
| "route (PostCreateEvent b) s w = post_create_event s b w"
| "route (PostBook i) s w = post_book s i w"
| "route GetAdmin s w = get_admin s w"
| "route (PostAdminAdd b) s w = post_admin_add s b w"
| "route (PostAdminDelete i) s w = post_admin_delete s i w"

text \<open>Requests served one after another, each with the session identifier of its cookie.\<close>

fun serve_all :: "(sid \<times> request) list \<Rightarrow> world \<Rightarrow> world" where
  "serve_all [] w = w"
| "serve_all ((s, r) # rs) w = serve_all rs (after (route r s w))"

section \<open>Concrete states for the worked instances\<close>

text \<open>
  A stand-in for bcrypt on the worked instances only: the hash is the reversed
  plaintext behind a version prefix, and \<open>compare\<close> recomputes it.
\<close>

definition demo_hash :: "string \<Rightarrow> nat \<Rightarrow> string" where
  "demo_hash p n = ''$2b$'' @ rev p"

definition demo_compare :: "string \<Rightarrow> string \<Rightarrow> bool" where
  "demo_compare p h = (h = ''$2b$'' @ rev p)"

definition alice :: user where
  "alice = \<lparr>uid = 1, username = ''alice'', password = ''$2b$terces'', role = ''user''\<rparr>"

definition alice_twin :: user where
  "alice_twin = \<lparr>uid = 7, username = ''alice'', password = ''$2b$rehto'', role = ''user''\<rparr>"

definition root_user :: user where
  "root_user = \<lparr>uid = 2, username = ''root'', password = ''$2b$nimda'', role = ''admin''\<rparr>"

definition party :: event where
  "party = \<lparr>eid = 1, title = ''party'', date = 20, location = ''hall'', user_id = Some 1\<rparr>"

definition fair :: event where
  "fair = \<lparr>eid = 2, title = ''fair'', date = 10, location = ''park'', user_id = None\<rparr>"

definition talk :: event where
  "talk = \<lparr>eid = 3, title = ''talk'', date = 15, location = ''room'', user_id = Some 2\<rparr>"

definition gala :: event_body where
  "gala = \<lparr>event_title = ''gala'', event_date = 5, event_location = ''pier''\<rparr>"

text \<open>
  Session 1 is alice's, session 2 is the administrator's, session 0 is anonymous;
  \<open>demo_world down\<close> rejects every statement when \<open>down\<close> holds and none otherwise.
\<close>

definition demo_world :: "bool \<Rightarrow> world" where
  "demo_world down =
     \<lparr>users = [alice, root_user], events = [party, fair, talk], bookings = [],
      users_id_seq = 3, events_id_seq = 4, bookings_id_seq = 1,
      sessions = [1 \<mapsto> alice, 2 \<mapsto> root_user],
      rejects = (\<lambda>q. down), bcrypt_hash = demo_hash, bcrypt_compare = demo_compare\<rparr>"

section \<open>The role invariant, as the specification words it\<close>

text \<open>
  The data model's invariant on the \<^verbatim>\<open>role\<close> column, and the signup requests whose
  role field keeps it: no field, the empty string, or one of the two roles.
\<close>

definition role_valid :: "string \<Rightarrow> bool" where
  "role_valid r = (r = ''user'' \<or> r = ''admin'')"

definition roles_valid :: "world \<Rightarrow> bool" where
  "roles_valid w = list_all (\<lambda>u. role_valid (role u)) (users w)"

fun admissible :: "request \<Rightarrow> bool" where
  "admissible (PostSignup b) =
     (case signup_role b of None \<Rightarrow> True | Some x \<Rightarrow> x = [] \<or> role_valid x)"
| "admissible r = True"

section \<open>Authorization on the admin page\<close>

text \<open>
  C1. GET /admin: without a session user the answer is a redirect to /login and no
  statement is issued; with a session user whose role is not "admin" the answer is
  the text "Access denied" with status 200 and nothing else happens (no statement,
  the state is unchanged); with an admin session user whose listing statement the
  database accepts, the admin view is rendered with every event row, whatever its
  owner, in ascending order of date.
\<close>

theorem get_admin_authorization:
  "(sessions w s = None \<longrightarrow>
      outcome (get_admin s w) = Inr (Redirect ''/login'') \<and>
      (\<forall>q. Query q \<notin> set (effects (get_admin s w)))) \<and>
   (\<forall>u. sessions w s = Some u \<and> role u \<noteq> ''admin'' \<longrightarrow>
      outcome (get_admin s w) = Inr (Send ''Access denied'') \<and>
      status_code (Send ''Access denied'') = 200 \<and>
      effects (get_admin s w) = [Respond (Send ''Access denied'')] \<and>
      after (get_admin s w) = w) \<and>
   (\<forall>u. sessions w s = Some u \<and> role u = ''admin'' \<and> \<not> rejects w SelectEventsAll \<longrightarrow>
      (\<exists>rows. outcome (get_admin s w) = Inr (Render ''admin'' (UserEvents (Some u) rows)) \<and>
         mset rows = mset (events w) \<and> sorted (map date rows)))"
  by (simp add: get_admin_def requireLogin_def respond_def propagate_def select_events_all_def)

theorem get_admin_authorization_witness:
  "outcome (get_admin 0 (demo_world False)) = Inr (Redirect ''/login'') \<and>
   outcome (get_admin 1 (demo_world False)) = Inr (Send ''Access denied'') \<and>
   outcome (get_admin 2 (demo_world False)) =
     Inr (Render ''admin'' (UserEvents (Some root_user) [fair, talk, party]))"
  using get_admin_authorization [of "demo_world False" 0]
        get_admin_authorization [of "demo_world False" 1]
        get_admin_authorization [of "demo_world False" 2]
  by (simp add: demo_world_def alice_def root_user_def get_admin_def requireLogin_def respond_def
      select_events_all_def party_def fair_def talk_def)

section \<open>Event visibility on the home page\<close>

text \<open>
  C6. GET /: without a session user the home view gets the empty list and no
  statement is issued; for an admin the list holds every event row, in ascending
  order of date; for any other user it holds exactly the event rows whose owner is
  the session user's id, in ascending order of date. The two listings are stated
  for a statement the database accepts.
\<close>

theorem get_home_event_visibility:
  "(sessions w s = None \<longrightarrow>
      outcome (get_home s w) = Inr (Render ''index'' (UserEvents None [])) \<and>
      (\<forall>q. Query q \<notin> set (effects (get_home s w)))) \<and>
   (\<forall>u. sessions w s = Some u \<and> role u = ''admin'' \<and> \<not> rejects w SelectEventsAll \<longrightarrow>
      (\<exists>rows. outcome (get_home s w) = Inr (Render ''index'' (UserEvents (Some u) rows)) \<and>
         mset rows = mset (events w) \<and> sorted (map date rows))) \<and>
   (\<forall>u. sessions w s = Some u \<and> role u \<noteq> ''admin'' \<and>
        \<not> rejects w (SelectEventsByUser (uid u)) \<longrightarrow>
      (\<exists>rows. outcome (get_home s w) = Inr (Render ''index'' (UserEvents (Some u) rows)) \<and>
         mset rows = mset (filter (\<lambda>e. user_id e = Some (uid u)) (events w)) \<and>
         sorted (map date rows)))"
  by (simp add: get_home_def respond_def propagate_def select_events_all_def
      select_events_by_user_def)

theorem get_home_event_visibility_witness:
  "outcome (get_home 0 (demo_world False)) = Inr (Render ''index'' (UserEvents None [])) \<and>
   outcome (get_home 1 (demo_world False)) =
     Inr (Render ''index'' (UserEvents (Some alice) [party])) \<and>
   outcome (get_home 2 (demo_world False)) =
     Inr (Render ''index'' (UserEvents (Some root_user) [fair, talk, party]))"
  using get_home_event_visibility [of "demo_world False" 0]
        get_home_event_visibility [of "demo_world False" 1]
        get_home_event_visibility [of "demo_world False" 2]
  by (simp add: demo_world_def alice_def root_user_def get_home_def respond_def
      select_events_all_def select_events_by_user_def party_def fair_def talk_def)

text \<open>An admin's insert leaves the session store and the database's verdicts alone.\<close>

lemma admin_add_sessions:
  "sessions (after (post_admin_add a b w)) = sessions w"
  by (simp add: post_admin_add_def requireLogin_def respond_def propagate_def insert_event_def
      Let_def split: option.splits)

lemma admin_add_rejects:
  "rejects (after (post_admin_add a b w)) = rejects w"
  by (simp add: post_admin_add_def requireLogin_def respond_def propagate_def insert_event_def
      Let_def split: option.splits)

text \<open>A user's home page depends on the events table only through the user's own rows.\<close>

lemma get_home_outcome_cong:
  assumes "sessions w' = sessions w" "rejects w' = rejects w"
    and "sessions w s = Some u" "role u \<noteq> ''admin''"
    and "filter (\<lambda>e. user_id e = Some (uid u)) (events w') =
         filter (\<lambda>e. user_id e = Some (uid u)) (events w)"
  shows "outcome (get_home s w') = outcome (get_home s w)"
  using assms
  by (simp add: get_home_def respond_def propagate_def select_events_by_user_def)

text \<open>
  C9. For a logged-in user whose role is not "admin", whatever the events table
  holds: every event in a list the home page renders is owned by that user, so no
  owner-less event is in it; when the statement is accepted the page is rendered
  and lists exactly the user's own rows; and an event an admin adds through
  POST /admin/add is stored without an owner and changes nothing in what that
  user's home page answers.
\<close>

theorem get_home_hides_ownerless_events:
  assumes "sessions w s = Some u" and "role u \<noteq> ''admin''"
  shows "(\<forall>v x rows e. outcome (get_home s w) = Inr (Render v (UserEvents x rows)) \<and> e \<in> set rows
            \<longrightarrow> user_id e = Some (uid u)) \<and>
         (\<not> rejects w (SelectEventsByUser (uid u)) \<longrightarrow>
            (\<exists>rows. outcome (get_home s w) = Inr (Render ''index'' (UserEvents (Some u) rows)) \<and>
               set rows = {e \<in> set (events w). user_id e = Some (uid u)})) \<and>
         (\<forall>a adm b. sessions w a = Some adm \<and> role adm = ''admin'' \<and>
              \<not> rejects w (InsertEvent (event_title b) (event_date b) (event_location b)) \<longrightarrow>
            (\<exists>e. events (after (post_admin_add a b w)) = events w @ [e] \<and> user_id e = None) \<and>
            outcome (get_home s (after (post_admin_add a b w))) = outcome (get_home s w))"
proof (intro conjI allI impI)
  fix v x rows e
  assume "outcome (get_home s w) = Inr (Render v (UserEvents x rows)) \<and> e \<in> set rows"
  with assms show "user_id e = Some (uid u)"
    by (auto simp: get_home_def respond_def propagate_def select_events_by_user_def
        split: if_splits)
next
  assume "\<not> rejects w (SelectEventsByUser (uid u))"
  with assms
  show "\<exists>rows. outcome (get_home s w) = Inr (Render ''index'' (UserEvents (Some u) rows)) \<and>
          set rows = {e \<in> set (events w). user_id e = Some (uid u)}"
    by (auto simp: get_home_def respond_def propagate_def select_events_by_user_def)
next
  fix a adm and b :: event_body
  assume h: "sessions w a = Some adm \<and> role adm = ''admin'' \<and>
              \<not> rejects w (InsertEvent (event_title b) (event_date b) (event_location b))"
  then show "\<exists>e. events (after (post_admin_add a b w)) = events w @ [e] \<and> user_id e = None"
    by (simp add: post_admin_add_def requireLogin_def respond_def insert_event_def Let_def)
  then obtain e where e: "events (after (post_admin_add a b w)) = events w @ [e]" "user_id e = None"
    by blast
  show "outcome (get_home s (after (post_admin_add a b w))) = outcome (get_home s w)"
    by (rule get_home_outcome_cong [OF admin_add_sessions admin_add_rejects assms])
       (simp add: e)
qed

theorem get_home_hides_ownerless_events_witness:
  "outcome (get_home 1 (demo_world False)) =
     Inr (Render ''index'' (UserEvents (Some alice) [party])) \<and>
   user_id fair = None \<and> fair \<in> set (events (demo_world False)) \<and>
   outcome (get_home 1 (after (post_admin_add 2 gala (demo_world False)))) =
     Inr (Render ''index'' (UserEvents (Some alice) [party]))"
  using get_home_hides_ownerless_events [of "demo_world False" 1 alice]
  by (simp add: demo_world_def alice_def root_user_def get_home_def respond_def
      select_events_by_user_def party_def fair_def talk_def gala_def
      post_admin_add_def requireLogin_def insert_event_def Let_def)

section \<open>Login\<close>

text \<open>
  The first row the lookup returns is the first row of the table with that name;
  when usernames are unique it is the row with that name.
\<close>

lemma find_None_filter: "find P xs = None \<Longrightarrow> filter P xs = []"
  by (induction xs) (auto split: if_splits)

lemma find_Some_filter: "find P xs = Some u \<Longrightarrow> \<exists>rest. filter P xs = u # rest"
  by (induction xs) (auto split: if_splits)

lemma find_distinct:
  "distinct (map f xs) \<Longrightarrow> u \<in> set xs \<Longrightarrow> f u = n \<Longrightarrow> find (\<lambda>x. f x = n) xs = Some u"
  by (induction xs) auto

text \<open>The four ways a login whose lookup is accepted can go.\<close>

lemma post_login_match:
  assumes "\<not> rejects w (SelectUserByUsername (login_username b))"
    and "find (\<lambda>u. username u = login_username b) (users w) = Some u"
    and "login_password b = Some p"
    and "bcrypt_compare w p (password u)"
  shows "post_login s b w =
           respond (Redirect ''/'') (w\<lparr>sessions := (sessions w)(s \<mapsto> u)\<rparr>)
             [Query (SelectUserByUsername (login_username b))]"
proof -
  obtain rest where "filter (\<lambda>u. username u = login_username b) (users w) = u # rest"
    using assms(2) by (auto dest: find_Some_filter)
  with assms(1,3,4) show ?thesis
    by (simp add: post_login_def select_user_by_username_def await_compare_def Let_def)
qed

lemma post_login_unknown:
  assumes "\<not> rejects w (SelectUserByUsername (login_username b))"
    and "find (\<lambda>u. username u = login_username b) (users w) = None"
  shows "post_login s b w =
           respond (Send invalid_msg) w [Query (SelectUserByUsername (login_username b))]"
proof -
  have "filter (\<lambda>u. username u = login_username b) (users w) = []"
    using assms(2) by (rule find_None_filter)
  with assms(1) show ?thesis
    by (simp add: post_login_def select_user_by_username_def Let_def)
qed

lemma post_login_mismatch:
  assumes "\<not> rejects w (SelectUserByUsername (login_username b))"
    and "find (\<lambda>u. username u = login_username b) (users w) = Some u"
    and "login_password b = Some p"
    and "\<not> bcrypt_compare w p (password u)"
  shows "post_login s b w =
           respond (Send invalid_msg) w [Query (SelectUserByUsername (login_username b))]"
proof -
  obtain rest where "filter (\<lambda>u. username u = login_username b) (users w) = u # rest"
    using assms(2) by (auto dest: find_Some_filter)
  with assms(1,3,4) show ?thesis
    by (simp add: post_login_def select_user_by_username_def await_compare_def Let_def)
qed

lemma post_login_raises:
  assumes "\<not> rejects w (SelectUserByUsername (login_username b))"
    and "find (\<lambda>u. username u = login_username b) (users w) = Some u"
    and "login_password b = None"
  shows "post_login s b w =
           propagate BcryptRejected w [Query (SelectUserByUsername (login_username b))]"
proof -
  obtain rest where "filter (\<lambda>u. username u = login_username b) (users w) = u # rest"
    using assms(2) by (auto dest: find_Some_filter)
  with assms(1,3) show ?thesis
    by (simp add: post_login_def select_user_by_username_def await_compare_def Let_def)
qed

text \<open>
  C3, as the code has it. POST /login, for a lookup the database accepts. The row
  tried is the first row the lookup returns for the submitted username (the row
  with that username when usernames are unique). When there is such a row, the
  body carries a string password and \<^verbatim>\<open>compare\<close> accepts it against that row's
  stored hash, the session user becomes that whole row, nothing else changes, and
  the answer is a redirect to /. When no row has that username, or the body
  carries a string password that \<^verbatim>\<open>compare\<close> rejects, the state and with it the
  session are unchanged and the answer is the "Invalid credentials" text. When
  there is such a row and the body carries no string password, \<^verbatim>\<open>compare\<close> raises,
  nothing catches it, no answer is sent, and the state is unchanged.
\<close>

theorem post_login_session:
  assumes acc: "\<not> rejects w (SelectUserByUsername (login_username b))"
  shows "(\<forall>u p. find (\<lambda>u. username u = login_username b) (users w) = Some u \<and>
              login_password b = Some p \<and> bcrypt_compare w p (password u) \<longrightarrow>
            outcome (post_login s b w) = Inr (Redirect ''/'') \<and>
            sessions (after (post_login s b w)) s = Some u \<and>
            after (post_login s b w) = w\<lparr>sessions := (sessions w)(s \<mapsto> u)\<rparr>) \<and>
         (find (\<lambda>u. username u = login_username b) (users w) = None \<or>
          (\<exists>u p. find (\<lambda>u. username u = login_username b) (users w) = Some u \<and>
               login_password b = Some p \<and> \<not> bcrypt_compare w p (password u)) \<longrightarrow>
            outcome (post_login s b w) = Inr (Send invalid_msg) \<and>
            after (post_login s b w) = w) \<and>
         (\<forall>u. find (\<lambda>u. username u = login_username b) (users w) = Some u \<and>
              login_password b = None \<longrightarrow>
            outcome (post_login s b w) = Inl BcryptRejected \<and>
            (\<forall>x. Respond x \<notin> set (effects (post_login s b w))) \<and>
            after (post_login s b w) = w) \<and>
         (\<forall>u. distinct (map username (users w)) \<and> u \<in> set (users w) \<and>
              username u = login_username b \<longrightarrow>
            find (\<lambda>u. username u = login_username b) (users w) = Some u)"
proof -
  have ok: "outcome (post_login s b w) = Inr (Redirect ''/'') \<and>
            sessions (after (post_login s b w)) s = Some u \<and>
            after (post_login s b w) = w\<lparr>sessions := (sessions w)(s \<mapsto> u)\<rparr>"
    if "find (\<lambda>u. username u = login_username b) (users w) = Some u"
      and "login_password b = Some p" and "bcrypt_compare w p (password u)" for u p
    by (simp add: post_login_match [OF acc that] respond_def)
  have ko: "outcome (post_login s b w) = Inr (Send invalid_msg) \<and> after (post_login s b w) = w"
    if "find (\<lambda>u. username u = login_username b) (users w) = None \<or>
          (\<exists>u p. find (\<lambda>u. username u = login_username b) (users w) = Some u \<and>
               login_password b = Some p \<and> \<not> bcrypt_compare w p (password u))"
    using that
  proof
    assume "find (\<lambda>u. username u = login_username b) (users w) = None"
    then show ?thesis by (simp add: post_login_unknown [OF acc] respond_def)
  next
    assume "\<exists>u p. find (\<lambda>u. username u = login_username b) (users w) = Some u \<and>
               login_password b = Some p \<and> \<not> bcrypt_compare w p (password u)"
    then obtain u p where "find (\<lambda>u. username u = login_username b) (users w) = Some u"
      and "login_password b = Some p" and "\<not> bcrypt_compare w p (password u)" by blast
    then show ?thesis by (simp add: post_login_mismatch [OF acc] respond_def)
  qed
  have raised: "outcome (post_login s b w) = Inl BcryptRejected \<and>
            (\<forall>x. Respond x \<notin> set (effects (post_login s b w))) \<and>
            after (post_login s b w) = w"
    if "find (\<lambda>u. username u = login_username b) (users w) = Some u"
      and "login_password b = None" for u
    by (simp add: post_login_raises [OF acc that] propagate_def)
  have first: "find (\<lambda>u. username u = login_username b) (users w) = Some u"
    if "distinct (map username (users w))" and "u \<in> set (users w)"
      and "username u = login_username b" for u
    using that by (rule find_distinct)
  from ok ko raised first show ?thesis by blast
qed

theorem post_login_session_witness:
  "outcome (post_login 0 \<lparr>login_username = ''alice'', login_password = Some ''secret''\<rparr>
      (demo_world False)) = Inr (Redirect ''/'') \<and>
   sessions (after (post_login 0 \<lparr>login_username = ''alice'', login_password = Some ''secret''\<rparr>
      (demo_world False))) 0 = Some alice \<and>
   outcome (post_login 0 \<lparr>login_username = ''alice'', login_password = Some ''guess''\<rparr>
      (demo_world False)) = Inr (Send invalid_msg) \<and>
   sessions (after (post_login 0 \<lparr>login_username = ''alice'', login_password = Some ''guess''\<rparr>
      (demo_world False))) 0 = None \<and>
   outcome (post_login 0 \<lparr>login_username = ''nobody'', login_password = Some ''secret''\<rparr>
      (demo_world False)) = Inr (Send invalid_msg) \<and>
   outcome (post_login 0 \<lparr>login_username = ''alice'', login_password = None\<rparr>
      (demo_world False)) = Inl BcryptRejected"
  using
    post_login_session [where w = "demo_world False" and s = 0
      and b = "\<lparr>login_username = ''alice'', login_password = Some ''secret''\<rparr>"]
    post_login_session [where w = "demo_world False" and s = 0
      and b = "\<lparr>login_username = ''alice'', login_password = Some ''guess''\<rparr>"]
    post_login_session [where w = "demo_world False" and s = 0
      and b = "\<lparr>login_username = ''nobody'', login_password = Some ''secret''\<rparr>"]
    post_login_session [where w = "demo_world False" and s = 0
      and b = "\<lparr>login_username = ''alice'', login_password = None\<rparr>"]
  by (simp add: demo_world_def alice_def root_user_def demo_compare_def)

text \<open>
  C3 as stated fails twice. A login for an existing username whose body has no
  string password is neither redirected nor answered "Invalid credentials": the
  compare raises out of the handler. And in a table with two rows of one
  username, where \<^verbatim>\<open>compare\<close> accepts the password against the second row's hash
  only, a row with the submitted username and an accepted password exists, yet
  the answer is "Invalid credentials".
\<close>

theorem post_login_session_counterexample:
  "outcome (post_login 0 \<lparr>login_username = ''alice'', login_password = None\<rparr>
      (demo_world False)) = Inl BcryptRejected \<and>
   effects (post_login 0 \<lparr>login_username = ''alice'', login_password = None\<rparr>
      (demo_world False)) = [Query (SelectUserByUsername ''alice'')] \<and>
   alice_twin \<in> set (users ((demo_world False)\<lparr>users := [alice, alice_twin]\<rparr>)) \<and>
   username alice_twin = ''alice'' \<and>
   bcrypt_compare ((demo_world False)\<lparr>users := [alice, alice_twin]\<rparr>) ''other''
     (password alice_twin) \<and>
   outcome (post_login 0 \<lparr>login_username = ''alice'', login_password = Some ''other''\<rparr>
      ((demo_world False)\<lparr>users := [alice, alice_twin]\<rparr>)) = Inr (Send invalid_msg)"
  by (simp add: demo_world_def alice_def alice_twin_def root_user_def demo_compare_def
      post_login_def select_user_by_username_def await_compare_def respond_def propagate_def
      Let_def)

text \<open>
  C10, as the code has it. Two failed logins, one with a username no row has, the
  other with an existing username (both lookups accepted): when the second body
  carries a string password that \<^verbatim>\<open>compare\<close> rejects, the two answers are the same
  "Invalid credentials" text with the same status, so the answer does not tell
  whether the username exists; when the second body carries no string password,
  the compare raises out of the handler while the first request is still answered
  "Invalid credentials", so that pair does tell.
\<close>

theorem post_login_failures_indistinguishable:
  assumes "\<not> rejects w (SelectUserByUsername (login_username b))"
    and "\<not> rejects w' (SelectUserByUsername (login_username b'))"
    and "find (\<lambda>u. username u = login_username b) (users w) = None"
    and "find (\<lambda>u. username u = login_username b') (users w') = Some u"
  shows "(\<forall>p. login_password b' = Some p \<and> \<not> bcrypt_compare w' p (password u) \<longrightarrow>
            outcome (post_login s b w) = outcome (post_login s' b' w') \<and>
            outcome (post_login s b w) = Inr (Send invalid_msg) \<and>
            status_code (Send invalid_msg) = 200) \<and>
         (login_password b' = None \<longrightarrow>
            outcome (post_login s b w) = Inr (Send invalid_msg) \<and>
            outcome (post_login s' b' w') = Inl BcryptRejected \<and>
            outcome (post_login s b w) \<noteq> outcome (post_login s' b' w'))"
  by (simp add: post_login_unknown [OF assms(1,3)] post_login_mismatch [OF assms(2,4)]
      post_login_raises [OF assms(2,4)] respond_def propagate_def)

theorem post_login_failures_indistinguishable_witness:
  "outcome (post_login 0 \<lparr>login_username = ''nobody'', login_password = Some ''secret''\<rparr>
      (demo_world False)) =
   outcome (post_login 0 \<lparr>login_username = ''alice'', login_password = Some ''guess''\<rparr>
      (demo_world False))"
proof -
  have "(\<forall>p. login_password \<lparr>login_username = ''alice'', login_password = Some ''guess''\<rparr> = Some p \<and>
             \<not> bcrypt_compare (demo_world False) p (password alice) \<longrightarrow>
          outcome (post_login 0 \<lparr>login_username = ''nobody'', login_password = Some ''secret''\<rparr>
            (demo_world False)) =
          outcome (post_login 0 \<lparr>login_username = ''alice'', login_password = Some ''guess''\<rparr>
            (demo_world False)) \<and>
          outcome (post_login 0 \<lparr>login_username = ''nobody'', login_password = Some ''secret''\<rparr>
            (demo_world False)) = Inr (Send invalid_msg) \<and>
          status_code (Send invalid_msg) = 200) \<and>
        (login_password \<lparr>login_username = ''alice'', login_password = Some ''guess''\<rparr> = None \<longrightarrow>
          outcome (post_login 0 \<lparr>login_username = ''nobody'', login_password = Some ''secret''\<rparr>
            (demo_world False)) = Inr (Send invalid_msg) \<and>
          outcome (post_login 0 \<lparr>login_username = ''alice'', login_password = Some ''guess''\<rparr>
            (demo_world False)) = Inl BcryptRejected \<and>
          outcome (post_login 0 \<lparr>login_username = ''nobody'', login_password = Some ''secret''\<rparr>
            (demo_world False)) \<noteq>
          outcome (post_login 0 \<lparr>login_username = ''alice'', login_password = Some ''guess''\<rparr>
            (demo_world False)))"
    by (rule post_login_failures_indistinguishable)
       (simp_all add: demo_world_def alice_def root_user_def)
  moreover have "\<not> bcrypt_compare (demo_world False) ''guess'' (password alice)"
    by (simp add: demo_world_def alice_def demo_compare_def)
  ultimately show ?thesis by simp
qed

text \<open>
  C10 as stated fails: of two failed logins without a string password, the one
  with an unknown username is answered "Invalid credentials" and the one with an
  existing username is not answered at all, so the answer tells whether the
  username exists.
\<close>

theorem post_login_failures_counterexample:
  "outcome (post_login 0 \<lparr>login_username = ''nobody'', login_password = None\<rparr>
      (demo_world False)) = Inr (Send invalid_msg) \<and>
   outcome (post_login 0 \<lparr>login_username = ''alice'', login_password = None\<rparr>
      (demo_world False)) = Inl BcryptRejected \<and>
   outcome (post_login 0 \<lparr>login_username = ''nobody'', login_password = None\<rparr>
      (demo_world False)) \<noteq>
   outcome (post_login 0 \<lparr>login_username = ''alice'', login_password = None\<rparr>
      (demo_world False))"
  by (simp add: demo_world_def alice_def root_user_def
      post_login_def select_user_by_username_def await_compare_def respond_def propagate_def
      Let_def)

section \<open>Signup\<close>

text \<open>The three ways a signup whose statements are accepted can go.\<close>

lemma post_signup_inserts:
  assumes fresh: "\<forall>u\<in>set (users w). username u \<noteq> signup_username b"
    and "\<not> rejects w (SelectUserByUsername (signup_username b))"
    and "signup_password b = Some p"
    and "\<not> rejects w (InsertUser (signup_username b) (bcrypt_hash w p 10)
                 (role_or_user (signup_role b)))"
  shows "post_signup s b w =
           respond (Redirect ''/login'')
             (w\<lparr>users := users w @
                   [\<lparr>uid = users_id_seq w, username = signup_username b,
                     password = bcrypt_hash w p 10,
                     role = role_or_user (signup_role b)\<rparr>],
                 users_id_seq := users_id_seq w + 1\<rparr>)
             [Query (SelectUserByUsername (signup_username b)),
              Query (InsertUser (signup_username b) (bcrypt_hash w p 10)
                 (role_or_user (signup_role b)))]"
proof -
  have "filter (\<lambda>u. username u = signup_username b) (users w) = []"
    using fresh by (simp add: filter_empty_conv)
  with assms(2,3,4) show ?thesis
    by (simp add: post_signup_def select_user_by_username_def insert_user_def await_hash_def
        Let_def)
qed

lemma post_signup_existing:
  assumes "\<exists>u\<in>set (users w). username u = signup_username b"
    and "\<not> rejects w (SelectUserByUsername (signup_username b))"
  shows "post_signup s b w =
           respond (Send taken_msg) w [Query (SelectUserByUsername (signup_username b))]"
proof -
  have "filter (\<lambda>u. username u = signup_username b) (users w) \<noteq> []"
    using assms(1) by (simp add: filter_empty_conv)
  with assms(2) show ?thesis
    by (simp add: post_signup_def select_user_by_username_def Let_def)
qed

lemma post_signup_no_password:
  assumes fresh: "\<forall>u\<in>set (users w). username u \<noteq> signup_username b"
    and "\<not> rejects w (SelectUserByUsername (signup_username b))"
    and "signup_password b = None"
  shows "post_signup s b w =
           respond (Send error_msg) w
             [Query (SelectUserByUsername (signup_username b)), ConsoleError BcryptRejected]"
proof -
  have "filter (\<lambda>u. username u = signup_username b) (users w) = []"
    using fresh by (simp add: filter_empty_conv)
  with assms(2,3) show ?thesis
    by (simp add: post_signup_def select_user_by_username_def await_hash_def Let_def)
qed

text \<open>
  C4, as the code has it. POST /signup with a username no row has and an accepted
  lookup. When the body carries a string password and the insert is accepted, the
  answer is a redirect to /login, and afterwards the table has exactly one row
  with that username; its role is "user" when the request has no role field, and
  its password is bcrypt's hash (cost 10) of the submitted password, which is not
  the plaintext and which \<^verbatim>\<open>compare\<close> accepts for the plaintext whenever bcrypt
  meets the Credential Service contract on it. When the body carries no string
  password, the hash raises inside the \<^verbatim>\<open>try\<close>: the error is logged, the answer is
  "Error occurred. Please try again.", and nothing is inserted.
\<close>

theorem post_signup_fresh_username:
  assumes fresh: "\<forall>u\<in>set (users w). username u \<noteq> signup_username b"
    and sel: "\<not> rejects w (SelectUserByUsername (signup_username b))"
  shows "(\<forall>p. signup_password b = Some p \<and>
              \<not> rejects w (InsertUser (signup_username b) (bcrypt_hash w p 10)
                   (role_or_user (signup_role b))) \<longrightarrow>
            outcome (post_signup s b w) = Inr (Redirect ''/login'') \<and>
            (\<exists>row. filter (\<lambda>u. username u = signup_username b)
                     (users (after (post_signup s b w))) = [row] \<and>
               (signup_role b = None \<longrightarrow> role row = ''user'') \<and>
               password row = bcrypt_hash w p 10 \<and>
               (credential_contract w p \<longrightarrow>
                  password row \<noteq> p \<and> bcrypt_compare w p (password row)))) \<and>
         (signup_password b = None \<longrightarrow>
            outcome (post_signup s b w) = Inr (Send error_msg) \<and>
            ConsoleError BcryptRejected \<in> set (effects (post_signup s b w)) \<and>
            after (post_signup s b w) = w)"
proof -
  have none: "filter (\<lambda>u. username u = signup_username b) (users w) = []"
    using fresh by (simp add: filter_empty_conv)
  have inserted: "outcome (post_signup s b w) = Inr (Redirect ''/login'') \<and>
            (\<exists>row. filter (\<lambda>u. username u = signup_username b)
                     (users (after (post_signup s b w))) = [row] \<and>
               (signup_role b = None \<longrightarrow> role row = ''user'') \<and>
               password row = bcrypt_hash w p 10 \<and>
               (credential_contract w p \<longrightarrow>
                  password row \<noteq> p \<and> bcrypt_compare w p (password row)))"
    if "signup_password b = Some p"
      and "\<not> rejects w (InsertUser (signup_username b) (bcrypt_hash w p 10)
                   (role_or_user (signup_role b)))" for p
    using none
    by (simp add: post_signup_inserts [OF fresh sel that] respond_def role_or_user_def
        credential_contract_def)
  have caught: "outcome (post_signup s b w) = Inr (Send error_msg) \<and>
            ConsoleError BcryptRejected \<in> set (effects (post_signup s b w)) \<and>
            after (post_signup s b w) = w"
    if "signup_password b = None"
    by (simp add: post_signup_no_password [OF fresh sel that] respond_def)
  from inserted caught show ?thesis by blast
qed

theorem post_signup_fresh_username_witness:
  "outcome (post_signup 0
      \<lparr>signup_username = ''bob'', signup_password = Some ''pw'', signup_role = None\<rparr>
      (demo_world False)) = Inr (Redirect ''/login'') \<and>
   (\<exists>row. filter (\<lambda>u. username u = ''bob'') (users (after (post_signup 0
      \<lparr>signup_username = ''bob'', signup_password = Some ''pw'', signup_role = None\<rparr>
      (demo_world False)))) = [row] \<and>
      role row = ''user'' \<and> password row = ''$2b$wp'' \<and> password row \<noteq> ''pw'' \<and>
      demo_compare ''pw'' (password row)) \<and>
   outcome (post_signup 0
      \<lparr>signup_username = ''bob'', signup_password = None, signup_role = None\<rparr>
      (demo_world False)) = Inr (Send error_msg)"
  using post_signup_fresh_username
    [where w = "demo_world False" and s = 0
       and b = "\<lparr>signup_username = ''bob'', signup_password = Some ''pw'', signup_role = None\<rparr>"]
    post_signup_fresh_username
    [where w = "demo_world False" and s = 0
       and b = "\<lparr>signup_username = ''bob'', signup_password = None, signup_role = None\<rparr>"]
  by (auto simp add: demo_world_def alice_def root_user_def demo_compare_def demo_hash_def
      credential_contract_def)

text \<open>
  C4 as stated fails: a signup with a username no row has and no string password
  is answered "Error occurred. Please try again." and leaves the table without a
  row of that username.
\<close>

theorem post_signup_fresh_counterexample:
  "''bob'' \<notin> set (map username (users (demo_world False))) \<and>
   outcome (post_signup 0
      \<lparr>signup_username = ''bob'', signup_password = None, signup_role = None\<rparr>
      (demo_world False)) = Inr (Send error_msg) \<and>
   filter (\<lambda>u. username u = ''bob'') (users (after (post_signup 0
      \<lparr>signup_username = ''bob'', signup_password = None, signup_role = None\<rparr>
      (demo_world False)))) = []"
  by (simp add: demo_world_def alice_def root_user_def
      post_signup_def select_user_by_username_def await_hash_def respond_def Let_def)

text \<open>
  C5. POST /signup with a username some row already has (lookup accepted): the
  answer is the "already taken" text, the only statement issued is the lookup, and
  the state is unchanged. Hence signing up twice with one username, the first time
  on a table without it, with a string password and with both statements
  accepted, answers "already taken" the second time and leaves exactly one row
  with that username.
\<close>

theorem post_signup_taken_username:
  "((\<exists>u\<in>set (users w). username u = signup_username b) \<and>
     \<not> rejects w (SelectUserByUsername (signup_username b)) \<longrightarrow>
       outcome (post_signup s b w) = Inr (Send taken_msg) \<and>
       after (post_signup s b w) = w \<and>
       effects (post_signup s b w) =
         [Query (SelectUserByUsername (signup_username b)), Respond (Send taken_msg)]) \<and>
   ((\<forall>u\<in>set (users w). username u \<noteq> signup_username b) \<and>
     signup_username b' = signup_username b \<and>
     signup_password b = Some p \<and>
     \<not> rejects w (SelectUserByUsername (signup_username b)) \<and>
     \<not> rejects w (InsertUser (signup_username b) (bcrypt_hash w p 10)
                 (role_or_user (signup_role b))) \<longrightarrow>
       outcome (post_signup s' b' (after (post_signup s b w))) = Inr (Send taken_msg) \<and>
       length (filter (\<lambda>u. username u = signup_username b)
                 (users (after (post_signup s' b' (after (post_signup s b w)))))) = 1)"
proof (rule conjI; rule impI)
  assume "(\<exists>u\<in>set (users w). username u = signup_username b) \<and>
     \<not> rejects w (SelectUserByUsername (signup_username b))"
  then show "outcome (post_signup s b w) = Inr (Send taken_msg) \<and>
       after (post_signup s b w) = w \<and>
       effects (post_signup s b w) =
         [Query (SelectUserByUsername (signup_username b)), Respond (Send taken_msg)]"
    by (simp add: post_signup_existing respond_def)
next
  let ?w1 = "after (post_signup s b w)"
  assume h: "(\<forall>u\<in>set (users w). username u \<noteq> signup_username b) \<and>
     signup_username b' = signup_username b \<and>
     signup_password b = Some p \<and>
     \<not> rejects w (SelectUserByUsername (signup_username b)) \<and>
     \<not> rejects w (InsertUser (signup_username b) (bcrypt_hash w p 10)
                 (role_or_user (signup_role b)))"
  then have first: "post_signup s b w =
           respond (Redirect ''/login'')
             (w\<lparr>users := users w @
                   [\<lparr>uid = users_id_seq w, username = signup_username b,
                     password = bcrypt_hash w p 10,
                     role = role_or_user (signup_role b)\<rparr>],
                 users_id_seq := users_id_seq w + 1\<rparr>)
             [Query (SelectUserByUsername (signup_username b)),
              Query (InsertUser (signup_username b) (bcrypt_hash w p 10)
                 (role_or_user (signup_role b)))]"
    by (simp add: post_signup_inserts)
  have none: "filter (\<lambda>u. username u = signup_username b) (users w) = []"
    using h by (simp add: filter_empty_conv)
  have ex: "\<exists>u\<in>set (users ?w1). username u = signup_username b'"
    using h by (simp add: first respond_def)
  have acc: "\<not> rejects ?w1 (SelectUserByUsername (signup_username b'))"
    using h by (simp add: first respond_def)
  have second: "post_signup s' b' ?w1 =
      respond (Send taken_msg) ?w1 [Query (SelectUserByUsername (signup_username b'))]"
    by (rule post_signup_existing [OF ex acc])
  show "outcome (post_signup s' b' ?w1) = Inr (Send taken_msg) \<and>
       length (filter (\<lambda>u. username u = signup_username b)
                 (users (after (post_signup s' b' ?w1)))) = 1"
    unfolding second by (simp add: respond_def first none)
qed

theorem post_signup_taken_username_witness:
  "outcome (post_signup 0
      \<lparr>signup_username = ''alice'', signup_password = Some ''pw'', signup_role = None\<rparr>
      (demo_world False)) = Inr (Send taken_msg) \<and>
   users (after (post_signup 0
      \<lparr>signup_username = ''alice'', signup_password = Some ''pw'', signup_role = None\<rparr>
      (demo_world False))) = [alice, root_user] \<and>
   outcome (post_signup 0
      \<lparr>signup_username = ''bob'', signup_password = Some ''other'', signup_role = Some ''admin''\<rparr>
      (after (post_signup 0
         \<lparr>signup_username = ''bob'', signup_password = Some ''pw'', signup_role = None\<rparr>
         (demo_world False)))) = Inr (Send taken_msg)"
  using post_signup_taken_username
    [where w = "demo_world False" and s = 0 and s' = 0 and p = "''pw''"
       and b = "\<lparr>signup_username = ''alice'', signup_password = Some ''pw'',
                 signup_role = None\<rparr>"
       and b' = "\<lparr>signup_username = ''alice'', signup_password = Some ''pw'',
                  signup_role = None\<rparr>"]
    post_signup_taken_username
    [where w = "demo_world False" and s = 0 and s' = 0 and p = "''pw''"
       and b = "\<lparr>signup_username = ''bob'', signup_password = Some ''pw'', signup_role = None\<rparr>"
       and b' = "\<lparr>signup_username = ''bob'', signup_password = Some ''other'',
                  signup_role = Some ''admin''\<rparr>"]
  by (simp add: demo_world_def alice_def root_user_def)

section \<open>The role column\<close>

text \<open>The definitions of all handlers and of all statements, to unfold them together.\<close>

lemmas handler_defs =
  get_home_def get_signup_def get_login_def post_signup_def post_login_def get_logout_def
  session_destroy_def get_create_event_def post_create_event_def post_book_def get_admin_def
  post_admin_add_def post_admin_delete_def requireLogin_def respond_def propagate_def
  await_hash_def await_compare_def

lemmas gateway_defs =
  select_events_all_def select_events_by_user_def select_user_by_username_def insert_user_def
  insert_event_owned_def insert_event_def delete_event_def insert_booking_def

text \<open>Only signup writes the users table, and it appends at most one row.\<close>

lemma post_signup_users:
  "users (after (post_signup s b w)) = users w \<or>
   (\<exists>row. users (after (post_signup s b w)) = users w @ [row] \<and>
      role row = role_or_user (signup_role b))"
  by (simp add: post_signup_def respond_def select_user_by_username_def insert_user_def
      await_hash_def Let_def split: option.splits)

lemma route_users:
  "(\<forall>b. r \<noteq> PostSignup b) \<Longrightarrow> users (after (route r s w)) = users w"
  by (cases r) (simp_all add: handler_defs gateway_defs Let_def split: option.splits list.splits)

lemma role_or_user_valid:
  "(case x of None \<Rightarrow> True | Some y \<Rightarrow> y = [] \<or> role_valid y) \<Longrightarrow> role_valid (role_or_user x)"
  by (auto simp: role_or_user_def role_valid_def split: option.splits)

lemma roles_valid_route:
  assumes "roles_valid w" and "admissible r"
  shows "roles_valid (after (route r s w))"
proof (cases "\<exists>b. r = PostSignup b")
  case True
  then obtain b where r: "r = PostSignup b" by blast
  with assms(2) have "role_valid (role_or_user (signup_role b))"
    by (simp add: role_or_user_valid)
  with post_signup_users [of s b w] assms(1) show ?thesis
    by (auto simp: r roles_valid_def)
next
  case False
  then have "users (after (route r s w)) = users w" by (simp add: route_users)
  with assms(1) show ?thesis by (simp add: roles_valid_def)
qed

lemma roles_valid_serve_all:
  "roles_valid w \<Longrightarrow> list_all (\<lambda>(s, r). admissible r) rs \<Longrightarrow> roles_valid (serve_all rs w)"
proof (induction rs arbitrary: w)
  case Nil
  then show ?case by simp
next
  case (Cons x rs)
  obtain s r where x: "x = (s, r)" by (cases x)
  with Cons.prems have "roles_valid (after (route r s w))"
    by (simp add: roles_valid_route)
  with Cons.IH Cons.prems show ?case by (simp add: x)
qed

text \<open>
  C2, as the code has it. POST /signup stores the submitted role as it is when it
  is a non-empty string, and "user" when the field is absent or empty. So a users
  table whose roles are all "user" or "admin" keeps that property through every
  sequence of requests whose signup bodies carry no role, an empty role, "user" or
  "admin"; the handler itself does not restrict the role to these two values.
\<close>

theorem signup_role_invariant:
  "(roles_valid w \<and> list_all (\<lambda>(s, r). admissible r) rs \<longrightarrow> roles_valid (serve_all rs w)) \<and>
   (users (after (post_signup s b w)) = users w \<or>
    (\<exists>row. users (after (post_signup s b w)) = users w @ [row] \<and>
       role row = role_or_user (signup_role b)))"
  using roles_valid_serve_all [of w rs] post_signup_users [of s b w] by blast

theorem signup_role_invariant_witness:
  "roles_valid (demo_world False) \<and>
   roles_valid (serve_all
     [(0, PostSignup \<lparr>signup_username = ''bob'', signup_password = Some ''pw'', signup_role = None\<rparr>),
      (0, PostSignup \<lparr>signup_username = ''eve'', signup_password = Some ''pw'',
             signup_role = Some ''admin''\<rparr>),
      (2, PostAdminDelete 1)] (demo_world False))"
  using signup_role_invariant
    [where w = "demo_world False" and s = 0
       and b = "\<lparr>signup_username = ''bob'', signup_password = Some ''pw'', signup_role = None\<rparr>"
       and rs = "[(0, PostSignup \<lparr>signup_username = ''bob'', signup_password = Some ''pw'',
                        signup_role = None\<rparr>),
                  (0, PostSignup \<lparr>signup_username = ''eve'', signup_password = Some ''pw'',
                        signup_role = Some ''admin''\<rparr>),
                  (2, PostAdminDelete 1)]"]
  by (simp add: roles_valid_def role_valid_def demo_world_def alice_def root_user_def)

text \<open>
  C2 as stated fails: a signup whose body carries the role "superuser" stores a
  row with that role in a table that satisfied the invariant.
\<close>

theorem signup_role_counterexample:
  "roles_valid (demo_world False) \<and>
   map role (users (after (post_signup 0
     \<lparr>signup_username = ''mallory'', signup_password = Some ''pw'', signup_role = Some ''superuser''\<rparr>
     (demo_world False)))) = [''user'', ''admin'', ''superuser''] \<and>
   \<not> roles_valid (after (post_signup 0
     \<lparr>signup_username = ''mallory'', signup_password = Some ''pw'', signup_role = Some ''superuser''\<rparr>
     (demo_world False)))"
  by (simp add: roles_valid_def role_valid_def demo_world_def alice_def root_user_def
      post_signup_def select_user_by_username_def insert_user_def await_hash_def respond_def
      Let_def role_or_user_def)

section \<open>Rejected statements\<close>

text \<open>A rejected statement is the last one a handler issues.\<close>

lemma signup_rejection:
  assumes "Query q \<in> set (effects (post_signup s b w))" and "rejects w q"
  shows "outcome (post_signup s b w) = Inr (Send error_msg) \<and>
         ConsoleError (QueryRejected q) \<in> set (effects (post_signup s b w)) \<and>
         after (post_signup s b w) = w"
  using assms
  by (auto simp: post_signup_def respond_def select_user_by_username_def insert_user_def
      await_hash_def Let_def split: if_splits option.splits)

lemma other_rejection:
  assumes "Query q \<in> set (effects (route r s w))" and "rejects w q"
    and "\<forall>b. r \<noteq> PostSignup b"
  shows "outcome (route r s w) = Inl (QueryRejected q) \<and>
         (\<forall>x. Respond x \<notin> set (effects (route r s w))) \<and>
         after (route r s w) = w"
  using assms
  by (cases r)
     (auto simp: handler_defs gateway_defs Let_def split: option.splits list.splits if_splits)

text \<open>
  C7. Whenever a handler issues a statement the database rejects: in POST /signup
  the rejection is caught, logged with \<^verbatim>\<open>console.error\<close> and answered with
  "Error occurred. Please try again."; in every other route (GET /, POST /login,
  POST /create-event, POST /book/:id, GET /admin, POST /admin/add,
  POST /admin/delete/:id) the rejection leaves the handler uncaught and no answer
  is sent. In both cases the state is unchanged.
\<close>

theorem query_rejection_handling:
  assumes "Query q \<in> set (effects (route r s w))" and "rejects w q"
  shows "((\<exists>b. r = PostSignup b) \<longrightarrow>
            outcome (route r s w) = Inr (Send error_msg) \<and>
            ConsoleError (QueryRejected q) \<in> set (effects (route r s w)) \<and>
            after (route r s w) = w) \<and>
         ((\<forall>b. r \<noteq> PostSignup b) \<longrightarrow>
            outcome (route r s w) = Inl (QueryRejected q) \<and>
            (\<forall>x. Respond x \<notin> set (effects (route r s w))) \<and>
            after (route r s w) = w)"
proof (rule conjI; rule impI)
  assume "\<exists>b. r = PostSignup b"
  then obtain b where "r = PostSignup b" by blast
  with signup_rejection [of q s b w] assms
  show "outcome (route r s w) = Inr (Send error_msg) \<and>
        ConsoleError (QueryRejected q) \<in> set (effects (route r s w)) \<and>
        after (route r s w) = w"
    by simp
next
  assume "\<forall>b. r \<noteq> PostSignup b"
  with assms show "outcome (route r s w) = Inl (QueryRejected q) \<and>
        (\<forall>x. Respond x \<notin> set (effects (route r s w))) \<and>
        after (route r s w) = w"
    by (rule other_rejection)
qed
theorem query_rejection_handling_witness:
  "outcome (route (PostSignup
      \<lparr>signup_username = ''bob'', signup_password = Some ''pw'', signup_role = None\<rparr>) 0
      (demo_world True)) = Inr (Send error_msg) \<and>
   outcome (route GetHome 1 (demo_world True)) = Inl (QueryRejected (SelectEventsByUser 1)) \<and>
   outcome (route (PostLogin \<lparr>login_username = ''alice'', login_password = Some ''secret''\<rparr>) 0
      (demo_world True)) = Inl (QueryRejected (SelectUserByUsername ''alice'')) \<and>
   outcome (route (PostCreateEvent gala) 1 (demo_world True)) =
      Inl (QueryRejected (InsertEventOwned ''gala'' 5 ''pier'' 1)) \<and>
   outcome (route (PostBook 3) 1 (demo_world True)) = Inl (QueryRejected (InsertBooking 1 3)) \<and>
   outcome (route GetAdmin 2 (demo_world True)) = Inl (QueryRejected SelectEventsAll) \<and>
   outcome (route (PostAdminAdd gala) 2 (demo_world True)) =
      Inl (QueryRejected (InsertEvent ''gala'' 5 ''pier'')) \<and>
   outcome (route (PostAdminDelete 1) 2 (demo_world True)) = Inl (QueryRejected (DeleteEvent 1))"
proof -
  have issued:
    "Query (SelectUserByUsername ''bob'') \<in> set (effects (route (PostSignup
        \<lparr>signup_username = ''bob'', signup_password = Some ''pw'', signup_role = None\<rparr>) 0
        (demo_world True)))"
    "Query (SelectEventsByUser 1) \<in> set (effects (route GetHome 1 (demo_world True)))"
    "Query (SelectUserByUsername ''alice'') \<in> set (effects (route (PostLogin
        \<lparr>login_username = ''alice'', login_password = Some ''secret''\<rparr>) 0 (demo_world True)))"
    "Query (InsertEventOwned ''gala'' 5 ''pier'' 1) \<in>
       set (effects (route (PostCreateEvent gala) 1 (demo_world True)))"
    "Query (InsertBooking 1 3) \<in> set (effects (route (PostBook 3) 1 (demo_world True)))"
    "Query SelectEventsAll \<in> set (effects (route GetAdmin 2 (demo_world True)))"
    "Query (InsertEvent ''gala'' 5 ''pier'') \<in>
       set (effects (route (PostAdminAdd gala) 2 (demo_world True)))"
    "Query (DeleteEvent 1) \<in> set (effects (route (PostAdminDelete 1) 2 (demo_world True)))"
    by (simp_all add: handler_defs gateway_defs Let_def demo_world_def alice_def root_user_def
        gala_def)
  have down: "rejects (demo_world True) q" for q
    by (simp add: demo_world_def)
  show ?thesis
    using issued [THEN query_rejection_handling, OF down] by simp
qed

section \<open>Logout\<close>

text \<open>
  C8. GET /logout: the session is destroyed first and the redirect to / is sent
  from the callback, in the state where the session identifier has no user any
  more; so right after it \<^verbatim>\<open>requireLogin\<close> answers every request on that session
  with a redirect to /login, on each of the six routes it guards.
\<close>

theorem get_logout_destroys_session:
  "get_logout s w =
     respond (Redirect ''/'') (w\<lparr>sessions := (sessions w)(s := None)\<rparr>) [SessionDestroyed s] \<and>
   effects (get_logout s w) = [SessionDestroyed s, Respond (Redirect ''/'')] \<and>
   outcome (get_logout s w) = Inr (Redirect ''/'') \<and>
   sessions (after (get_logout s w)) s = None \<and>
   (\<forall>next. requireLogin s (after (get_logout s w)) next =
      respond (Redirect ''/login'') (after (get_logout s w)) []) \<and>
   outcome (get_create_event s (after (get_logout s w))) = Inr (Redirect ''/login'') \<and>
   (\<forall>b. outcome (post_create_event s b (after (get_logout s w))) = Inr (Redirect ''/login'')) \<and>
   (\<forall>i. outcome (post_book s i (after (get_logout s w))) = Inr (Redirect ''/login'')) \<and>
   outcome (get_admin s (after (get_logout s w))) = Inr (Redirect ''/login'') \<and>
   (\<forall>b. outcome (post_admin_add s b (after (get_logout s w))) = Inr (Redirect ''/login'')) \<and>
   (\<forall>i. outcome (post_admin_delete s i (after (get_logout s w))) = Inr (Redirect ''/login''))"
  by (simp add: handler_defs)

end
